theory Spec2Isabelle
  imports Complex_Main
begin

section \<open>Promises and JavaScript values\<close>

text \<open>
  Every network call of the client is an awaited promise. Its outcome is a parameter of
  the model: \<open>Resolved v\<close> carries \<open>response.data\<close>, \<open>Rejected d\<close> carries
  \<open>error.response?.data\<close> (\<open>None\<close> when the error has no response body, as for a
  network error). The same type is the outcome of the store's own async functions.
\<close>

datatype 'a promise = Resolved 'a | Rejected "string option"

text \<open>\<open>d || fallback\<close> on an optional string: \<open>undefined\<close> and the empty string are falsy.\<close>

definition js_or :: "string option \<Rightarrow> string \<Rightarrow> string" where
  "js_or d fallback = (case d of None \<Rightarrow> fallback | Some v \<Rightarrow> if v = [] then fallback else v)"

text \<open>What a call leaves outside the store: a POST to \<open>/saved-jobs/\<close> and \<open>console.error\<close>.\<close>

datatype io = PostSavedJob nat string | ConsoleError string

section \<open>The jobs store (store/jobsStore, in src/unnamed/part_001)\<close>

text \<open>
  A job as the client reads it. \<open>status\<close> is set on the entries of \<open>/saved-jobs/\<close>
  and undefined on the jobs of the feed.
\<close>

record job =
  job_id :: nat
  title :: string
  company :: string
  status :: "string option"

text \<open>Both stores carry \<open>isLoading\<close> and \<open>error\<close>; the records extend this one.\<close>

record loadable =
  isLoading :: bool
  error :: "string option"

record jobs_store = loadable +
  jobs :: "job list"
  currentIndex :: int
  savedJobs :: "job list"
  appliedJobs :: "job list"

definition initial_store :: jobs_store where
  "initial_store =
     \<lparr>isLoading = False, error = None, jobs = [], currentIndex = 0, savedJobs = [], appliedJobs = []\<rparr>"

text \<open>
  \<open>response.data.results || response.data\<close>: the feed is the \<open>results\<close> field of a
  paginated body, or the body itself.
\<close>

datatype feed_payload = Paged "job list" | Bare "job list"

fun feed_of :: "feed_payload \<Rightarrow> job list" where
  "feed_of (Paged rs) = rs"
| "feed_of (Bare js) = js"

text \<open>
  An async mutator is split where it awaits: \<open>_pending\<close> is the store it leaves while
  the request is in flight, \<open>_settle\<close> what it does once the request has an outcome.
\<close>

definition fetchRecommended_pending :: "jobs_store \<Rightarrow> jobs_store" where
  "fetchRecommended_pending s = s\<lparr>isLoading := True, error := None\<rparr>"

definition fetchRecommended_settle :: "feed_payload promise \<Rightarrow> jobs_store \<Rightarrow> jobs_store" where
  "fetchRecommended_settle r s =
     (case r of
        Resolved d \<Rightarrow> s\<lparr>jobs := feed_of d, currentIndex := 0, isLoading := False\<rparr>
      | Rejected e \<Rightarrow> s\<lparr>error := Some (js_or e ''Failed to fetch jobs''), isLoading := False\<rparr>)"

definition fetchRecommended :: "feed_payload promise \<Rightarrow> jobs_store \<Rightarrow> jobs_store" where
  "fetchRecommended r s = fetchRecommended_settle r (fetchRecommended_pending s)"

text \<open>\<open>jobs[currentIndex] || null\<close>: an index outside the array reads \<open>undefined\<close>.\<close>

definition getCurrentJob :: "jobs_store \<Rightarrow> job option" where
  "getCurrentJob s =
     (if 0 \<le> currentIndex s \<and> currentIndex s < int (length (jobs s))
      then Some (jobs s ! nat (currentIndex s)) else None)"

definition skipJob :: "jobs_store \<Rightarrow> jobs_store" where
  "skipJob s =
     (if currentIndex s < int (length (jobs s)) - 1
      then s\<lparr>currentIndex := currentIndex s + 1\<rparr> else s)"


definition saveJob :: "job \<Rightarrow> unit promise \<Rightarrow> jobs_store \<Rightarrow> unit promise \<times> jobs_store \<times> io list" where
  "saveJob j r s =
     (case r of
        Resolved _ \<Rightarrow>
          (Resolved (),
           s\<lparr>savedJobs := savedJobs s @ [j], currentIndex := currentIndex s + 1\<rparr>,
           [PostSavedJob (job_id j) ''saved''])
      | Rejected e \<Rightarrow>
          (Resolved (), s, [PostSavedJob (job_id j) ''saved'', ConsoleError ''Failed to save job:'']))"


definition applyToJob :: "job \<Rightarrow> unit promise \<Rightarrow> jobs_store \<Rightarrow> bool promise \<times> jobs_store \<times> io list" where
  "applyToJob j r s =
     (case r of
        Resolved _ \<Rightarrow>
          (Resolved True,
           s\<lparr>appliedJobs := appliedJobs s @ [j], currentIndex := currentIndex s + 1\<rparr>,
           [PostSavedJob (job_id j) ''applied''])
      | Rejected e \<Rightarrow>
          (Resolved False, s, [PostSavedJob (job_id j) ''applied'', ConsoleError ''Failed to apply:'']))"


definition fetchSavedJobs :: "job list promise \<Rightarrow> jobs_store \<Rightarrow> jobs_store \<times> io list" where
  "fetchSavedJobs r s =
     (case r of
        Resolved d \<Rightarrow>
          (s\<lparr>savedJobs := filter (\<lambda>j. status j = Some ''saved'') d,
             appliedJobs := filter (\<lambda>j. status j = Some ''applied'') d\<rparr>, [])
      | Rejected e \<Rightarrow> (s, [ConsoleError ''Failed to fetch saved jobs:'']))"

definition hasMoreJobs :: "jobs_store \<Rightarrow> bool" where
  "hasMoreJobs s \<longleftrightarrow> currentIndex s < int (length (jobs s))"

text \<open>
  The store's history: each event is one synchronous write of the store, in the order
  the event loop runs them. A request in flight is an event that has not happened yet,
  so every interleaving of pending requests is a list of events.
\<close>

datatype store_event =
    SkipJob
  | SaveJob job "unit promise"
  | ApplyToJob job "unit promise"
  | FetchRecommendedPending
  | FetchRecommendedSettle "feed_payload promise"
  | FetchSavedJobs "job list promise"

fun step :: "store_event \<Rightarrow> jobs_store \<Rightarrow> jobs_store" where
  "step SkipJob s = skipJob s"
| "step (SaveJob j r) s = fst (snd (saveJob j r s))"
| "step (ApplyToJob j r) s = fst (snd (applyToJob j r s))"
| "step FetchRecommendedPending s = fetchRecommended_pending s"
| "step (FetchRecommendedSettle r) s = fetchRecommended_settle r s"
| "step (FetchSavedJobs r) s = fst (fetchSavedJobs r s)"

fun run :: "store_event list \<Rightarrow> jobs_store \<Rightarrow> jobs_store" where
  "run [] s = s"
| "run (e # es) s = run es (step e s)"

text \<open>A feed of \<open>n\<close> jobs, for the examples.\<close>

definition sample_job :: "nat \<Rightarrow> job" where
  "sample_job i = \<lparr>job_id = i, title = ''Engineer'', company = ''Acme'', status = None\<rparr>"

definition tagged :: "nat \<Rightarrow> string \<Rightarrow> job" where
  "tagged i st = \<lparr>job_id = i, title = ''Engineer'', company = ''Acme'', status = Some st\<rparr>"

section \<open>The swipe card (components/SwipeCard, in src/unnamed/part_002)\<close>

text \<open>
  \<open>info.offset\<close> of a drag release. \<open>handleDragEnd\<close> is an if / else-if chain on the
  offset; the result is the argument of \<open>setExitX\<close>, when it is called, and the calls of
  \<open>onSwipe\<close> in the order they are made.
\<close>

record drag_offset =
  offset_x :: real
  offset_y :: real

definition handleDragEnd :: "drag_offset \<Rightarrow> int option \<times> string list" where
  "handleDragEnd info =
     (let threshold = 100 in
      if offset_x info > threshold then (Some 300, [''apply''])
      else if offset_x info < - threshold then (Some (- 300), [''skip''])
      else if offset_y info < - threshold then (None, [''save''])
      else (None, []))"

section \<open>The discover page (DiscoverPage, in src/frontend/src/pages/SavedJobsPage.jsx)\<close>

text \<open>
  The page holds the jobs store and two pieces of component state. \<open>handleSwipe\<close> reads
  \<open>jobs[currentIndex]\<close> and returns at once when it is undefined. \<open>saveJob\<close> is
  started and not awaited; its request's outcome is the parameter \<open>r\<close>.
\<close>

record discover_page =
  store :: jobs_store
  selectedJob :: "job option"
  showApplyModal :: bool

definition currentJob :: "discover_page \<Rightarrow> job option" where
  "currentJob p =
     (if 0 \<le> currentIndex (store p) \<and> currentIndex (store p) < int (length (jobs (store p)))
      then Some (jobs (store p) ! nat (currentIndex (store p))) else None)"

definition handleSwipe :: "string \<Rightarrow> unit promise \<Rightarrow> discover_page \<Rightarrow> discover_page \<times> io list" where
  "handleSwipe action r p =
     (case currentJob p of
        None \<Rightarrow> (p, [])
      | Some cur \<Rightarrow>
          if action = ''skip'' then (p\<lparr>store := skipJob (store p)\<rparr>, [])
          else if action = ''save'' then
            (p\<lparr>store := fst (snd (saveJob cur r (store p)))\<rparr>, snd (snd (saveJob cur r (store p))))
          else if action = ''apply'' then (p\<lparr>selectedJob := Some cur, showApplyModal := True\<rparr>, [])
          else (p, []))"

text \<open>
  The two ways into \<open>handleSwipe\<close>: the card passes every \<open>onSwipe\<close> call of a drag
  release to it, and each button calls it with its own action.
\<close>

fun onSwipe_calls :: "string list \<Rightarrow> unit promise \<Rightarrow> discover_page \<Rightarrow> discover_page \<times> io list" where
  "onSwipe_calls [] r p = (p, [])"
| "onSwipe_calls (a # as) r p =
     (let (p1, out1) = handleSwipe a r p; (p2, out2) = onSwipe_calls as r p1 in (p2, out1 @ out2))"

definition drag_release :: "drag_offset \<Rightarrow> unit promise \<Rightarrow> discover_page \<Rightarrow> discover_page \<times> io list" where
  "drag_release info r p = onSwipe_calls (snd (handleDragEnd info)) r p"

definition onSkip :: "unit promise \<Rightarrow> discover_page \<Rightarrow> discover_page \<times> io list" where
  "onSkip r p = handleSwipe ''skip'' r p"

definition onSave :: "unit promise \<Rightarrow> discover_page \<Rightarrow> discover_page \<times> io list" where
  "onSave r p = handleSwipe ''save'' r p"

definition onApply :: "unit promise \<Rightarrow> discover_page \<Rightarrow> discover_page \<times> io list" where
  "onApply r p = handleSwipe ''apply'' r p"

section \<open>The HTTP gateway (src/frontend/src/api/client.js)\<close>

text \<open>
  Response bodies are opaque JSON text. The browser is \<open>localStorage\<close> and
  \<open>window.location.href\<close>.
\<close>

type_synonym json = string

record browser =
  localStorage :: "string \<rightharpoonup> string"
  location :: string

text \<open>An axios request config; \<open>retry\<close> is its \<open>_retry\<close> flag.\<close>

record request =
  url :: string
  authorization :: "string option"
  retry :: bool

text \<open>What goes over the network: a request through \<open>api\<close>, or the refresh POST.\<close>

datatype wire = Sent request | RefreshPosted string

text \<open>
  A reply is a 2xx response with its body, or an error with \<open>error.response?.status\<close>
  (\<open>None\<close> for an error without a response).
\<close>

datatype reply = Status2xx json | StatusError "nat option"

text \<open>
  The remote API is a parameter: it answers each request, and each refresh POST, as a
  function of everything sent so far.
\<close>

record backend =
  respond :: "wire list \<Rightarrow> request \<Rightarrow> reply"
  refresh :: "wire list \<Rightarrow> string \<Rightarrow> string promise"

text \<open>The request interceptor: \<open>if (token)\<close> is false for a missing or empty token.\<close>

definition attach_token :: "browser \<Rightarrow> request \<Rightarrow> request" where
  "attach_token w req =
     (case localStorage w ''access_token'' of
        None \<Rightarrow> req
      | Some t \<Rightarrow> if t = [] then req else req\<lparr>authorization := Some (''Bearer '' @ t)\<rparr>)"

text \<open>
  \<open>api(config)\<close> with both interceptors. The response interceptor's error handler
  replays the request through \<open>api\<close> itself, on the same config object, whose
  \<open>_retry\<close> flag it has set; the replay's own outcome goes to the caller
  (\<open>return api(originalRequest)\<close> is not awaited inside the \<open>try\<close>). The recursion
  ends because a config with the flag set is never replayed.
\<close>

function api :: "backend \<Rightarrow> request \<Rightarrow> browser \<times> wire list \<Rightarrow> reply \<times> browser \<times> wire list" where
  "api b config (w, net) =
     (let req = attach_token w config;
          net1 = net @ [Sent req]
      in case respond b net req of
           Status2xx body \<Rightarrow> (Status2xx body, w, net1)
         | StatusError st \<Rightarrow>
             if st = Some 401 \<and> \<not> retry req then
               (case localStorage w ''refresh_token'' of
                  None \<Rightarrow> (StatusError st, w, net1)
                | Some rt \<Rightarrow>
                    if rt = [] then (StatusError st, w, net1)
                    else
                      (case refresh b net1 rt of
                         Resolved acc \<Rightarrow>
                           api b (req\<lparr>retry := True, authorization := Some (''Bearer '' @ acc)\<rparr>)
                             (w\<lparr>localStorage := (localStorage w)(''access_token'' \<mapsto> acc)\<rparr>,
                              net1 @ [RefreshPosted rt])
                       | Rejected e \<Rightarrow>
                           (StatusError st,
                            w\<lparr>localStorage :=
                                 ((localStorage w)(''access_token'' := None))(''refresh_token'' := None),
                              location := ''/login''\<rparr>,
                            net1 @ [RefreshPosted rt])))
             else (StatusError st, w, net1))"
  by pat_completeness auto
termination
  by (relation "measure (\<lambda>(b, config, w, net). if retry config then 0 else 1)")
     (auto simp: attach_token_def split: option.splits if_splits)

fun refresh_calls :: "wire list \<Rightarrow> nat" where
  "refresh_calls [] = 0"
| "refresh_calls (RefreshPosted rt # net) = Suc (refresh_calls net)"
| "refresh_calls (Sent req # net) = refresh_calls net"

fun sends :: "wire list \<Rightarrow> nat" where
  "sends [] = 0"
| "sends (Sent req # net) = Suc (sends net)"
| "sends (RefreshPosted rt # net) = sends net"

section \<open>The auth store (store/authStore, in src/unnamed/part_000)\<close>

record auth_store = loadable +
  user :: "json option"
  profile :: "json option"
  isAuthenticated :: bool


record token_pair =
  access :: string
  refresh_token :: string


definition fetchUser :: "json promise \<Rightarrow> json promise \<Rightarrow> auth_store \<Rightarrow> auth_store" where
  "fetchUser userRes profileRes s =
     (case userRes of
        Resolved u \<Rightarrow>
          (case profileRes of
             Resolved p \<Rightarrow> s\<lparr>user := Some u, profile := Some p, isAuthenticated := True\<rparr>
           | Rejected e \<Rightarrow> s\<lparr>user := None, profile := None, isAuthenticated := False\<rparr>)
      | Rejected e \<Rightarrow> s\<lparr>user := None, profile := None, isAuthenticated := False\<rparr>)"

text \<open>
  \<open>login\<close>: \<open>loginRes\<close> is the outcome of \<open>authAPI.login\<close> (a rejection carries
  \<open>error.response?.data?.detail\<close>), \<open>userRes\<close> and \<open>profileRes\<close> those of the two
  requests of \<open>fetchUser\<close>. The result is the value the returned promise resolves to.
  The outcomes are those the store sees after the gateway has handled the request; what
  the gateway itself does to \<open>localStorage\<close> and the location on a 401 is part of
  \<open>api\<close> below, and the persist middleware's copy of \<open>isAuthenticated\<close> under
  \<open>auth-storage\<close> is not modelled. Here the browser changes only by the two
  \<open>setItem\<close> calls of \<open>login\<close>.
\<close>

definition login_pending :: "auth_store \<Rightarrow> auth_store" where
  "login_pending s = s\<lparr>isLoading := True, error := None\<rparr>"

definition login ::
  "string \<Rightarrow> string \<Rightarrow> token_pair promise \<Rightarrow> json promise \<Rightarrow> json promise \<Rightarrow>
     auth_store \<times> browser \<Rightarrow> bool \<times> auth_store \<times> browser" where
  "login email password loginRes userRes profileRes sw =
     (let s1 = login_pending (fst sw); w = snd sw in
      case loginRes of
        Resolved tok \<Rightarrow>
          (let w1 = w\<lparr>localStorage := (localStorage w)(''access_token'' \<mapsto> access tok)\<rparr>;
               w2 = w1\<lparr>localStorage := (localStorage w1)(''refresh_token'' \<mapsto> refresh_token tok)\<rparr>;
               s2 = fetchUser userRes profileRes s1
           in (True, s2\<lparr>isAuthenticated := True, isLoading := False\<rparr>, w2))
      | Rejected e \<Rightarrow>
          (False, s1\<lparr>error := Some (js_or e ''Login failed''), isLoading := False\<rparr>, w))"





definition logout :: "auth_store \<times> browser \<Rightarrow> auth_store \<times> browser" where
  "logout sw =
     ((fst sw)\<lparr>user := None, profile := None, isAuthenticated := False, error := None\<rparr>,
      (snd sw)\<lparr>localStorage :=
         ((localStorage (snd sw))(''access_token'' := None))(''refresh_token'' := None)\<rparr>)"

definition clearError :: "auth_store \<Rightarrow> auth_store" where
  "clearError s = s\<lparr>error := None\<rparr>"

section \<open>Example states and inputs\<close>

text \<open>The store after a feed of three jobs has been fetched.\<close>

definition feed3 :: jobs_store where
  "feed3 = fetchRecommended (Resolved (Bare [sample_job 1, sample_job 2, sample_job 3])) initial_store"

text \<open>The events that load a feed of one job.\<close>

definition one_job_feed :: "store_event list" where
  "one_job_feed = [FetchRecommendedPending, FetchRecommendedSettle (Resolved (Bare [sample_job 1]))]"

text \<open>The store after a feed of two jobs has been fetched and the first one skipped.\<close>

definition two_job_feed :: jobs_store where
  "two_job_feed = run [FetchRecommendedPending,
      FetchRecommendedSettle (Resolved (Bare [sample_job 1, sample_job 2])), SkipJob] initial_store"

text \<open>
  The events that move the cursor forward without a test: a \<open>saveJob\<close> or an
  \<open>applyToJob\<close> whose request has resolved.
\<close>

fun advances :: "store_event \<Rightarrow> bool" where
  "advances (SaveJob j (Resolved u)) = True"
| "advances (ApplyToJob j (Resolved u)) = True"
| "advances _ = False"

text \<open>The discover page once its only job has been saved: the cursor is at the end.\<close>

definition exhausted_page :: discover_page where
  "exhausted_page =
     \<lparr>store = run [FetchRecommendedPending,
          FetchRecommendedSettle (Resolved (Bare [sample_job 1])),
          SaveJob (sample_job 1) (Resolved ())] initial_store,
      selectedJob = None, showApplyModal = False\<rparr>"

text \<open>
  Two remote APIs that answer every request with 401: one accepts the refresh
  credential, the other rejects it. A browser with both credentials stored, and a
  request that has not been retried.
\<close>

definition always_401 :: backend where
  "always_401 =
     \<lparr>respond = (\<lambda>net req. StatusError (Some 401)), refresh = (\<lambda>net rt. Resolved ''fresh'')\<rparr>"

definition expired_backend :: backend where
  "expired_backend =
     \<lparr>respond = (\<lambda>net req. StatusError (Some 401)), refresh = (\<lambda>net rt. Rejected None)\<rparr>"

definition stale_browser :: browser where
  "stale_browser =
     \<lparr>localStorage = [''access_token'' \<mapsto> ''stale'', ''refresh_token'' \<mapsto> ''r1''],
      location = ''/discover''\<rparr>"

definition get_feed :: request where
  "get_feed = \<lparr>url = ''/jobs/recommended/'', authorization = None, retry = False\<rparr>"

section \<open>The jobs store: fetching\<close>

text \<open>
  C8. \<open>fetchRecommended\<close>: when the request resolves, the jobs list is the list of the
  response (the \<open>results\<close> of a paginated body, or the body itself) and the cursor is
  0; when it is rejected, the jobs list and the cursor are the ones from before the call
  and the store's \<open>error\<close> field holds an error: the body of the error response, or
  \<open>Failed to fetch jobs\<close> when there is none.
\<close>

theorem fetchRecommended_replaces_or_keeps:
  "jobs (fetchRecommended (Resolved (Paged rs)) s) = rs
   \<and> jobs (fetchRecommended (Resolved (Bare js)) s) = js
   \<and> currentIndex (fetchRecommended (Resolved d) s) = 0
   \<and> jobs (fetchRecommended (Rejected e) s) = jobs s
   \<and> currentIndex (fetchRecommended (Rejected e) s) = currentIndex s
   \<and> error (fetchRecommended (Rejected e) s) = Some (js_or e ''Failed to fetch jobs'')
   \<and> error (fetchRecommended (Rejected e) s) \<noteq> None
   \<and> error (fetchRecommended (Rejected None) s) = Some ''Failed to fetch jobs''
   \<and> error (fetchRecommended (Rejected (Some ''503'')) s) = Some ''503''"
  by (simp add: fetchRecommended_def fetchRecommended_settle_def fetchRecommended_pending_def
      js_or_def)

text \<open>
  C7. \<open>fetchSavedJobs\<close>: when the request resolves with a list, \<open>savedJobs\<close> becomes
  the entries of that list whose status is \<open>saved\<close> and \<open>appliedJobs\<close> the entries
  whose status is \<open>applied\<close>, both in the list's order, and nothing else of the store
  changes. For a response of one saved and two applied entries the lengths are 1 and 2.
\<close>

theorem fetchSavedJobs_partitions:
  "fst (fetchSavedJobs (Resolved d) s) =
     s\<lparr>savedJobs := filter (\<lambda>j. status j = Some ''saved'') d,
       appliedJobs := filter (\<lambda>j. status j = Some ''applied'') d\<rparr>
   \<and> length (savedJobs (fst (fetchSavedJobs
        (Resolved [tagged 1 ''saved'', tagged 2 ''applied'', tagged 3 ''applied'']) s))) = 1
   \<and> length (appliedJobs (fst (fetchSavedJobs
        (Resolved [tagged 1 ''saved'', tagged 2 ''applied'', tagged 3 ''applied'']) s))) = 2"
  by (simp add: fetchSavedJobs_def tagged_def)

section \<open>The jobs store: saving and applying\<close>

text \<open>
  C6. When the persistence request of \<open>saveJob\<close> or \<open>applyToJob\<close> is rejected, the
  store is the one from before the call: nothing is appended to \<open>savedJobs\<close> or
  \<open>appliedJobs\<close> and the cursor does not move. \<open>applyToJob\<close> resolves to false
  (and to true when the request resolves); \<open>saveJob\<close> resolves all the same and only
  writes to the console.
\<close>

theorem failed_persist_keeps_store:
  "saveJob j (Rejected e) s =
     (Resolved (), s, [PostSavedJob (job_id j) ''saved'', ConsoleError ''Failed to save job:''])
   \<and> applyToJob j (Rejected e) s =
     (Resolved False, s, [PostSavedJob (job_id j) ''applied'', ConsoleError ''Failed to apply:''])
   \<and> savedJobs (fst (snd (saveJob j (Rejected e) s))) = savedJobs s
   \<and> currentIndex (fst (snd (saveJob j (Rejected e) s))) = currentIndex s
   \<and> appliedJobs (fst (snd (applyToJob j (Rejected e) s))) = appliedJobs s
   \<and> currentIndex (fst (snd (applyToJob j (Rejected e) s))) = currentIndex s
   \<and> fst (applyToJob j (Resolved u) s) = Resolved True"
  by (simp add: saveJob_def applyToJob_def)

section \<open>The jobs store: skipping\<close>

lemma skipJob_jobs: "jobs (skipJob s) = jobs s"
  by (simp add: skipJob_def)

lemma skipJob_index:
  "currentIndex (skipJob s) =
     (if currentIndex s < int (length (jobs s)) - 1 then currentIndex s + 1 else currentIndex s)"
  by (simp add: skipJob_def)

lemma skip_pow_jobs: "jobs ((skipJob ^^ k) s) = jobs s"
  by (induction k) (simp_all add: skipJob_jobs)

lemma skip_pow_index:
  assumes "currentIndex s = 0" and "1 \<le> length (jobs s)"
  shows "currentIndex ((skipJob ^^ k) s) = min (int k) (int (length (jobs s)) - 1)"
proof (induction k)
  case 0
  with assms show ?case by simp
next
  case (Suc k)
  have "currentIndex (skipJob ((skipJob ^^ k) s)) =
          (if currentIndex ((skipJob ^^ k) s) < int (length (jobs s)) - 1
           then currentIndex ((skipJob ^^ k) s) + 1 else currentIndex ((skipJob ^^ k) s))"
    by (simp add: skipJob_index skip_pow_jobs)
  with Suc show ?case
    by (simp add: min_def)
qed

lemma skip_pow_empty:
  assumes "currentIndex s = 0" and "jobs s = []"
  shows "currentIndex ((skipJob ^^ k) s) = 0"
proof (induction k)
  case 0
  with assms show ?case by simp
next
  case (Suc k)
  have "currentIndex (skipJob ((skipJob ^^ k) s)) =
          (if currentIndex ((skipJob ^^ k) s) < int (length (jobs s)) - 1
           then currentIndex ((skipJob ^^ k) s) + 1 else currentIndex ((skipJob ^^ k) s))"
    by (simp add: skipJob_index skip_pow_jobs)
  with Suc assms show ?case by simp
qed

text \<open>
  C4, as the code has it. Starting from cursor 0: for a feed of length \<open>N \<ge> 1\<close>,
  \<open>N\<close> calls of \<open>skipJob\<close> leave the cursor at \<open>N - 1\<close>, \<open>k\<close> calls leave it
  at the smaller of \<open>k\<close> and \<open>N - 1\<close>, and no number of calls brings it to \<open>N\<close>.
  For the empty feed the cursor stays at 0 after any number of calls.
\<close>

theorem skipJob_clamps:
  assumes "currentIndex s = 0"
  shows "(1 \<le> length (jobs s) \<longrightarrow>
            currentIndex ((skipJob ^^ length (jobs s)) s) = int (length (jobs s)) - 1
            \<and> (\<forall>k. currentIndex ((skipJob ^^ k) s) = min (int k) (int (length (jobs s)) - 1))
            \<and> (\<forall>k. currentIndex ((skipJob ^^ k) s) < int (length (jobs s))))
         \<and> (jobs s = [] \<longrightarrow> (\<forall>k. currentIndex ((skipJob ^^ k) s) = 0))"
  using assms by (simp add: skip_pow_index skip_pow_empty min_def)

text \<open>
  The feed of three jobs: two skips, three or seven leave the cursor at 2. The empty feed
  of the initial store: three skips leave the cursor at 0.
\<close>

theorem skipJob_clamps_witness:
  "currentIndex feed3 = 0 \<and> 1 \<le> length (jobs feed3)
   \<and> currentIndex ((skipJob ^^ length (jobs feed3)) feed3) = 2
   \<and> currentIndex ((skipJob ^^ 2) feed3) = 2
   \<and> currentIndex ((skipJob ^^ 7) feed3) = 2
   \<and> currentIndex ((skipJob ^^ 7) feed3) < 3
   \<and> currentIndex initial_store = 0 \<and> jobs initial_store = []
   \<and> currentIndex ((skipJob ^^ 3) initial_store) = 0"
proof -
  have a: "currentIndex feed3 = 0" and b: "1 \<le> length (jobs feed3)" and c: "length (jobs feed3) = 3"
    by (simp_all add: feed3_def fetchRecommended_def fetchRecommended_settle_def)
  have i: "currentIndex initial_store = 0" and n: "jobs initial_store = []"
    by (simp_all add: initial_store_def)
  from skipJob_clamps [OF a] skipJob_clamps [OF i] a b c i n show ?thesis by simp
qed

text \<open>
  The store as it is created has an empty feed, \<open>N = 0\<close>: after \<open>N\<close> calls of
  \<open>skipJob\<close> the cursor is 0, which is not \<open>N - 1 = -1\<close> and is \<open>N\<close>; and it
  is 0 after one call and after three.
\<close>

theorem skipJob_empty_feed_counterexample:
  "currentIndex ((skipJob ^^ length (jobs initial_store)) initial_store)
     \<noteq> int (length (jobs initial_store)) - 1
   \<and> currentIndex ((skipJob ^^ length (jobs initial_store)) initial_store)
     = int (length (jobs initial_store))
   \<and> int (length (jobs initial_store)) - 1 = - 1
   \<and> currentIndex (skipJob initial_store) = 0
   \<and> currentIndex (skipJob (skipJob (skipJob initial_store))) = 0"
  by (simp add: initial_store_def skipJob_def)

section \<open>The jobs store: the cursor\<close>

lemma step_index_cases:
  "currentIndex (step ev s) = currentIndex s + 1
   \<or> currentIndex (step ev s) = currentIndex s
   \<or> (\<exists>d. ev = FetchRecommendedSettle (Resolved d)) \<and> currentIndex (step ev s) = 0"
  by (cases ev)
     (auto simp: skipJob_def saveJob_def applyToJob_def fetchRecommended_pending_def
        fetchRecommended_settle_def fetchSavedJobs_def split: promise.splits)

lemma step_nonneg: "0 \<le> currentIndex s \<Longrightarrow> 0 \<le> currentIndex (step ev s)"
  using step_index_cases [of ev s] by auto

lemma run_nonneg: "0 \<le> currentIndex s \<Longrightarrow> 0 \<le> currentIndex (run es s)"
  by (induction es arbitrary: s) (simp_all add: step_nonneg)

lemma step_decrease:
  "currentIndex (step ev s) < currentIndex s \<Longrightarrow>
     (\<exists>d. ev = FetchRecommendedSettle (Resolved d)) \<and> currentIndex (step ev s) = 0"
  using step_index_cases [of ev s] by auto

lemma step_upper_other:
  assumes "currentIndex s \<le> int (length (jobs s))" and "\<not> advances ev"
  shows "currentIndex (step ev s) \<le> int (length (jobs (step ev s)))"
proof (cases ev)
  case SkipJob
  with assms show ?thesis by (simp add: skipJob_def)
next
  case (SaveJob j r)
  with assms show ?thesis by (cases r) (simp_all add: saveJob_def)
next
  case (ApplyToJob j r)
  with assms show ?thesis by (cases r) (simp_all add: applyToJob_def)
next
  case FetchRecommendedPending
  with assms show ?thesis by (simp add: fetchRecommended_pending_def)
next
  case (FetchRecommendedSettle r)
  with assms show ?thesis by (cases r) (simp_all add: fetchRecommended_settle_def)
next
  case (FetchSavedJobs r)
  with assms show ?thesis by (cases r) (simp_all add: fetchSavedJobs_def)
qed

lemma step_upper_advance:
  "(currentIndex (step (SaveJob j (Resolved u)) s)
       \<le> int (length (jobs (step (SaveJob j (Resolved u)) s)))) = hasMoreJobs s"
  "(currentIndex (step (ApplyToJob j (Resolved u)) s)
       \<le> int (length (jobs (step (ApplyToJob j (Resolved u)) s)))) = hasMoreJobs s"
  by (auto simp: saveJob_def applyToJob_def hasMoreJobs_def)

text \<open>
  C3, as the code has it. In every state the store reaches from its initial state, the
  cursor is at least 0. \<open>skipJob\<close> advances it by 1 when it is below \<open>length - 1\<close>
  and leaves it otherwise; \<open>saveJob\<close> and \<open>applyToJob\<close> advance it by exactly 1 when
  their request resolves and leave it when the request is rejected. No write of the store
  decreases it but a resolved \<open>fetchRecommended\<close>, which sets it to 0. The bound
  \<open>index \<le> length\<close> is kept by every write other than that of a resolved save or
  apply; after the write of a resolved save or apply it holds exactly when the cursor
  was below the length at the moment of that write, which the store does not test.
\<close>

theorem cursor_moves:
  "0 \<le> currentIndex (run es initial_store)
   \<and> currentIndex (step SkipJob s) =
       (if currentIndex s < int (length (jobs s)) - 1 then currentIndex s + 1 else currentIndex s)
   \<and> currentIndex (step (SaveJob j (Resolved u)) s) = currentIndex s + 1
   \<and> currentIndex (step (ApplyToJob j (Resolved u)) s) = currentIndex s + 1
   \<and> currentIndex (step (SaveJob j (Rejected e)) s) = currentIndex s
   \<and> currentIndex (step (ApplyToJob j (Rejected e)) s) = currentIndex s
   \<and> (currentIndex (step ev s) < currentIndex s \<longrightarrow>
        (\<exists>d. ev = FetchRecommendedSettle (Resolved d)) \<and> currentIndex (step ev s) = 0)
   \<and> (currentIndex s \<le> int (length (jobs s)) \<and> \<not> advances ev \<longrightarrow>
        currentIndex (step ev s) \<le> int (length (jobs (step ev s))))
   \<and> (currentIndex (step (SaveJob j (Resolved u)) s)
         \<le> int (length (jobs (step (SaveJob j (Resolved u)) s)))) = hasMoreJobs s
   \<and> (currentIndex (step (ApplyToJob j (Resolved u)) s)
         \<le> int (length (jobs (step (ApplyToJob j (Resolved u)) s)))) = hasMoreJobs s"
proof -
  have "0 \<le> currentIndex (run es initial_store)"
    by (rule run_nonneg) (simp add: initial_store_def)
  moreover have "currentIndex (step SkipJob s) =
       (if currentIndex s < int (length (jobs s)) - 1 then currentIndex s + 1 else currentIndex s)"
    by (simp add: skipJob_def)
  moreover have "currentIndex (step (SaveJob j (Resolved u)) s) = currentIndex s + 1"
    and "currentIndex (step (SaveJob j (Rejected e)) s) = currentIndex s"
    by (simp_all add: saveJob_def)
  moreover have "currentIndex (step (ApplyToJob j (Resolved u)) s) = currentIndex s + 1"
    and "currentIndex (step (ApplyToJob j (Rejected e)) s) = currentIndex s"
    by (simp_all add: applyToJob_def)
  moreover note step_upper_advance [of j u s]
  ultimately show ?thesis
    using step_decrease [of ev s] step_upper_other [of s ev] by blast
qed

text \<open>
  With the cursor at 1 in a feed of two jobs: a resolved refetch decreases the cursor,
  to 0; a skip keeps it at 1, within the length; a resolved save of the current job
  moves it to 2, within the length.
\<close>

theorem cursor_moves_witness:
  "currentIndex two_job_feed = 1
   \<and> currentIndex (step (FetchRecommendedSettle (Resolved (Bare []))) two_job_feed) < currentIndex two_job_feed
   \<and> currentIndex (step (FetchRecommendedSettle (Resolved (Bare []))) two_job_feed) = 0
   \<and> currentIndex two_job_feed \<le> int (length (jobs two_job_feed))
   \<and> \<not> advances SkipJob
   \<and> currentIndex (step SkipJob two_job_feed) = 1
   \<and> currentIndex (step SkipJob two_job_feed) \<le> int (length (jobs (step SkipJob two_job_feed)))
   \<and> hasMoreJobs two_job_feed
   \<and> currentIndex (step (SaveJob (sample_job 2) (Resolved ())) two_job_feed) = 2
   \<and> currentIndex (step (SaveJob (sample_job 2) (Resolved ())) two_job_feed)
       \<le> int (length (jobs (step (SaveJob (sample_job 2) (Resolved ())) two_job_feed)))"
proof -
  have s: "currentIndex two_job_feed = 1" "length (jobs two_job_feed) = 2"
    by (simp_all add: two_job_feed_def initial_store_def fetchRecommended_pending_def
        fetchRecommended_settle_def skipJob_def)
  have d: "currentIndex (step (FetchRecommendedSettle (Resolved (Bare []))) two_job_feed)
      < currentIndex two_job_feed"
    by (simp add: s fetchRecommended_settle_def)
  have h: "hasMoreJobs two_job_feed"
    by (simp add: hasMoreJobs_def s)
  from cursor_moves [of "[]" two_job_feed "sample_job 2" "()" None
      "FetchRecommendedSettle (Resolved (Bare []))"]
    cursor_moves [of "[]" two_job_feed "sample_job 2" "()" None SkipJob]
    s d h
  show ?thesis by simp
qed

text \<open>
  A feed of one job. Two saves of that job that both resolve (the second started before
  the first resolved) leave the cursor at 2, past the length 1. A skip leaves the cursor
  at 0, and so does a save whose request is rejected.
\<close>

theorem cursor_moves_counterexample:
  "currentIndex (run (one_job_feed @ [SaveJob (sample_job 1) (Resolved ()),
       SaveJob (sample_job 1) (Resolved ())]) initial_store) = 2
   \<and> length (jobs (run (one_job_feed @ [SaveJob (sample_job 1) (Resolved ()),
       SaveJob (sample_job 1) (Resolved ())]) initial_store)) = 1
   \<and> currentIndex (run one_job_feed initial_store) = 0
   \<and> currentIndex (run (one_job_feed @ [SkipJob]) initial_store) = 0
   \<and> currentIndex (run (one_job_feed @ [SaveJob (sample_job 1) (Rejected None)]) initial_store) = 0"
  by (simp add: one_job_feed_def initial_store_def fetchRecommended_pending_def
      fetchRecommended_settle_def saveJob_def skipJob_def)

section \<open>The swipe card: the decision of a drag release\<close>

text \<open>
  C5. \<open>handleDragEnd\<close> with threshold 100, for every release offset \<open>(x, y)\<close>:
  \<open>x > 100\<close> calls \<open>onSwipe\<close> with apply; \<open>x < -100\<close> with skip; otherwise
  \<open>y < -100\<close> with save; otherwise nothing is called and no exit direction is set.
  The horizontal tests come first and do not read \<open>y\<close>, so a release past both
  thresholds has the horizontal outcome. \<open>onSwipe\<close> is called at most once.
\<close>

theorem handleDragEnd_decides:
  "(100 < offset_x info \<longrightarrow> snd (handleDragEnd info) = [''apply''])
   \<and> (offset_x info < - 100 \<longrightarrow> snd (handleDragEnd info) = [''skip''])
   \<and> (\<not> 100 < offset_x info \<and> \<not> offset_x info < - 100 \<and> offset_y info < - 100 \<longrightarrow>
        snd (handleDragEnd info) = [''save''])
   \<and> (\<not> 100 < offset_x info \<and> \<not> offset_x info < - 100 \<and> \<not> offset_y info < - 100 \<longrightarrow>
        handleDragEnd info = (None, []))
   \<and> length (snd (handleDragEnd info)) \<le> 1"
  by (simp add: handleDragEnd_def)

text \<open>
  Four releases: 150 to the right applies, 150 to the left skips, 150
  upwards saves, 50 to the right does nothing; past both thresholds the horizontal
  outcome wins.
\<close>

theorem handleDragEnd_decides_witness:
  "snd (handleDragEnd \<lparr>offset_x = 150, offset_y = 0\<rparr>) = [''apply'']
   \<and> snd (handleDragEnd \<lparr>offset_x = - 150, offset_y = 0\<rparr>) = [''skip'']
   \<and> snd (handleDragEnd \<lparr>offset_x = 0, offset_y = - 150\<rparr>) = [''save'']
   \<and> handleDragEnd \<lparr>offset_x = 50, offset_y = 0\<rparr> = (None, [])
   \<and> snd (handleDragEnd \<lparr>offset_x = 150, offset_y = - 150\<rparr>) = [''apply'']
   \<and> snd (handleDragEnd \<lparr>offset_x = - 150, offset_y = - 150\<rparr>) = [''skip'']"
  using handleDragEnd_decides [of "\<lparr>offset_x = 150, offset_y = 0\<rparr>"]
    handleDragEnd_decides [of "\<lparr>offset_x = - 150, offset_y = 0\<rparr>"]
    handleDragEnd_decides [of "\<lparr>offset_x = 0, offset_y = - 150\<rparr>"]
    handleDragEnd_decides [of "\<lparr>offset_x = 50, offset_y = 0\<rparr>"]
    handleDragEnd_decides [of "\<lparr>offset_x = 150, offset_y = - 150\<rparr>"]
    handleDragEnd_decides [of "\<lparr>offset_x = - 150, offset_y = - 150\<rparr>"]
  by simp

section \<open>The discover page: swiping with no current job\<close>

lemma currentJob_exhausted:
  "int (length (jobs (store p))) \<le> currentIndex (store p) \<Longrightarrow> currentJob p = None"
  by (simp add: currentJob_def)

lemma handleSwipe_no_job: "currentJob p = None \<Longrightarrow> handleSwipe action r p = (p, [])"
  by (simp add: handleSwipe_def)

lemma onSwipe_calls_no_job: "currentJob p = None \<Longrightarrow> onSwipe_calls as r p = (p, [])"
  by (induction as) (simp_all add: handleSwipe_no_job)

text \<open>
  C10. When the cursor is at or past the end of the feed, \<open>handleSwipe\<close> returns at
  once for every action: the page (the store, the selected job, the modal flag) is the
  one from before and nothing is posted or logged. The same holds for a drag release of
  any offset and for each of the three buttons, which all go through \<open>handleSwipe\<close>.
\<close>

theorem handleSwipe_exhausted_noop:
  assumes "int (length (jobs (store p))) \<le> currentIndex (store p)"
  shows "handleSwipe action r p = (p, [])
     \<and> drag_release info r p = (p, [])
     \<and> onSkip r p = (p, []) \<and> onSave r p = (p, []) \<and> onApply r p = (p, [])"
  using currentJob_exhausted [OF assms]
  by (simp add: handleSwipe_no_job onSwipe_calls_no_job drag_release_def onSkip_def onSave_def
      onApply_def)

text \<open>The page whose only job has been saved: cursor 1, length 1.\<close>

theorem handleSwipe_exhausted_noop_witness:
  "int (length (jobs (store exhausted_page))) \<le> currentIndex (store exhausted_page)
   \<and> handleSwipe ''skip'' (Resolved ()) exhausted_page = (exhausted_page, [])
   \<and> handleSwipe ''save'' (Resolved ()) exhausted_page = (exhausted_page, [])
   \<and> handleSwipe ''apply'' (Resolved ()) exhausted_page = (exhausted_page, [])
   \<and> drag_release \<lparr>offset_x = 150, offset_y = 0\<rparr> (Resolved ()) exhausted_page = (exhausted_page, [])"
proof -
  have h: "int (length (jobs (store exhausted_page))) \<le> currentIndex (store exhausted_page)"
    by (simp add: exhausted_page_def initial_store_def fetchRecommended_pending_def
        fetchRecommended_settle_def saveJob_def)
  from handleSwipe_exhausted_noop [OF h, of "''skip''" "Resolved ()" "\<lparr>offset_x = 150, offset_y = 0\<rparr>"]
    handleSwipe_exhausted_noop [OF h, of "''save''" "Resolved ()"]
    handleSwipe_exhausted_noop [OF h, of "''apply''" "Resolved ()"] h
  show ?thesis by simp
qed

section \<open>The HTTP gateway: one refresh, one replay\<close>

declare api.simps [simp del]

lemma attach_token_retry: "retry (attach_token w config) = retry config"
  by (simp add: attach_token_def split: option.splits)

lemma api_replayed:
  assumes "retry config"
  shows "api b config (w, net) =
    (respond b net (attach_token w config), w, net @ [Sent (attach_token w config)])"
  using assms by (subst api.simps) (simp add: attach_token_retry Let_def split: reply.splits)

lemma api_budget:
  "\<exists>new. snd (snd (api b config (w, net))) = net @ new
     \<and> refresh_calls new \<le> 1 \<and> 1 \<le> sends new \<and> sends new \<le> 2"
proof (cases "retry config")
  case True
  then show ?thesis by (simp add: api_replayed)
next
  case False
  let ?req = "attach_token w config"
  let ?net1 = "net @ [Sent ?req]"
  show ?thesis
  proof (cases "respond b net ?req")
    case (Status2xx body)
    then show ?thesis by (subst api.simps) (simp add: Let_def)
  next
    case (StatusError st)
    show ?thesis
    proof (cases "st = Some 401")
      case no401: False
      with StatusError show ?thesis by (subst api.simps) (simp add: Let_def)
    next
      case is401: True
      show ?thesis
      proof (cases "localStorage w ''refresh_token''")
        case None
        with StatusError show ?thesis by (subst api.simps) (simp add: Let_def)
      next
        case (Some rt)
        show ?thesis
        proof (cases "rt = []")
          case True
          with StatusError Some show ?thesis by (subst api.simps) (simp add: Let_def)
        next
          case nonempty: False
          show ?thesis
          proof (cases "refresh b ?net1 rt")
            case (Rejected e)
            with StatusError Some nonempty is401 False show ?thesis
              by (subst api.simps) (simp add: Let_def attach_token_retry)
          next
            case (Resolved acc)
            let ?replay = "?req\<lparr>retry := True, authorization := Some (''Bearer '' @ acc)\<rparr>"
            let ?w1 = "w\<lparr>localStorage := (localStorage w)(''access_token'' \<mapsto> acc)\<rparr>"
            have "api b config (w, net) = api b ?replay (?w1, ?net1 @ [RefreshPosted rt])"
              using StatusError Some nonempty is401 False Resolved
              by (subst api.simps) (simp add: Let_def attach_token_retry)
            also have "\<dots> = (respond b (?net1 @ [RefreshPosted rt]) (attach_token ?w1 ?replay), ?w1,
                 (?net1 @ [RefreshPosted rt]) @ [Sent (attach_token ?w1 ?replay)])"
              by (rule api_replayed) simp
            finally show ?thesis by simp
          qed
        qed
      qed
    qed
  qed
qed

lemma api_refresh_failed:
  assumes "\<not> retry config"
    and "respond b net (attach_token w config) = StatusError (Some 401)"
    and "localStorage w ''refresh_token'' = Some rt" and "rt \<noteq> []"
    and "refresh b (net @ [Sent (attach_token w config)]) rt = Rejected e"
  shows "api b config (w, net) =
     (StatusError (Some 401),
      w\<lparr>localStorage := ((localStorage w)(''access_token'' := None))(''refresh_token'' := None),
        location := ''/login''\<rparr>,
      net @ [Sent (attach_token w config), RefreshPosted rt])"
  using assms by (subst api.simps) (simp add: Let_def attach_token_retry)

text \<open>
  C2. For every remote API, browser and request, one call of \<open>api\<close> adds to the
  network at most one refresh POST and at most two sends of the request (the original
  and one replay). A request whose retry flag is set, as the replay's is, is sent once
  and its reply goes to the caller whatever it is, a 401 included. When the request has
  not been retried, its reply is a 401, a refresh credential is stored and the refresh
  POST is rejected, both credentials are removed from \<open>localStorage\<close>, the location
  becomes \<open>/login\<close>, and nothing more is sent.
\<close>

theorem gateway_retry_budget:
  "(\<exists>new. snd (snd (api b config (w, net))) = net @ new
       \<and> refresh_calls new \<le> 1 \<and> sends new \<le> 2)
   \<and> (retry config \<longrightarrow>
        api b config (w, net) =
          (respond b net (attach_token w config), w, net @ [Sent (attach_token w config)]))
   \<and> (\<not> retry config \<and> respond b net (attach_token w config) = StatusError (Some 401)
        \<and> localStorage w ''refresh_token'' = Some rt \<and> rt \<noteq> []
        \<and> refresh b (net @ [Sent (attach_token w config)]) rt = Rejected e \<longrightarrow>
        localStorage (fst (snd (api b config (w, net)))) ''access_token'' = None
        \<and> localStorage (fst (snd (api b config (w, net)))) ''refresh_token'' = None
        \<and> location (fst (snd (api b config (w, net)))) = ''/login''
        \<and> snd (snd (api b config (w, net))) = net @ [Sent (attach_token w config), RefreshPosted rt])"
proof -
  have "\<exists>new. snd (snd (api b config (w, net))) = net @ new
       \<and> refresh_calls new \<le> 1 \<and> sends new \<le> 2"
    using api_budget [of b config w net] by blast
  moreover have "retry config \<longrightarrow>
        api b config (w, net) =
          (respond b net (attach_token w config), w, net @ [Sent (attach_token w config)])"
    using api_replayed by blast
  moreover have "\<not> retry config \<and> respond b net (attach_token w config) = StatusError (Some 401)
        \<and> localStorage w ''refresh_token'' = Some rt \<and> rt \<noteq> []
        \<and> refresh b (net @ [Sent (attach_token w config)]) rt = Rejected e \<longrightarrow>
        localStorage (fst (snd (api b config (w, net)))) ''access_token'' = None
        \<and> localStorage (fst (snd (api b config (w, net)))) ''refresh_token'' = None
        \<and> location (fst (snd (api b config (w, net)))) = ''/login''
        \<and> snd (snd (api b config (w, net))) = net @ [Sent (attach_token w config), RefreshPosted rt]"
    by (auto simp: api_refresh_failed)
  ultimately show ?thesis by blast
qed

text \<open>
  A replay that is answered 401 is sent once and not refreshed; with a rejected refresh,
  the stored credentials are gone and the browser is at \<open>/login\<close>.
\<close>

theorem gateway_retry_budget_witness:
  "retry (get_feed\<lparr>retry := True\<rparr>)
   \<and> api always_401 (get_feed\<lparr>retry := True\<rparr>) (stale_browser, []) =
       (StatusError (Some 401), stale_browser,
        [Sent (get_feed\<lparr>retry := True, authorization := Some ''Bearer stale''\<rparr>)])
   \<and> \<not> retry get_feed
   \<and> respond expired_backend [] (attach_token stale_browser get_feed) = StatusError (Some 401)
   \<and> localStorage stale_browser ''refresh_token'' = Some ''r1''
   \<and> refresh expired_backend [Sent (attach_token stale_browser get_feed)] ''r1'' = Rejected None
   \<and> localStorage (fst (snd (api expired_backend get_feed (stale_browser, [])))) ''access_token'' = None
   \<and> localStorage (fst (snd (api expired_backend get_feed (stale_browser, [])))) ''refresh_token'' = None
   \<and> location (fst (snd (api expired_backend get_feed (stale_browser, [])))) = ''/login''
   \<and> snd (snd (api expired_backend get_feed (stale_browser, []))) =
       [Sent (get_feed\<lparr>authorization := Some ''Bearer stale''\<rparr>), RefreshPosted ''r1'']"
  using gateway_retry_budget [of always_401 "get_feed\<lparr>retry := True\<rparr>" stale_browser "[]" "''r1''" None]
    gateway_retry_budget [of expired_backend get_feed stale_browser "[]" "''r1''" None]
  by (simp add: always_401_def expired_backend_def stale_browser_def get_feed_def attach_token_def)

text \<open>
  The whole exchange when the refresh is accepted and the replay is answered 401 again:
  the request, one refresh POST, one replay, and the 401 for the caller.
\<close>

lemma api_replay_unauthorized_example:
  "api always_401 get_feed (stale_browser, []) =
     (StatusError (Some 401),
      stale_browser\<lparr>localStorage := (localStorage stale_browser)(''access_token'' \<mapsto> ''fresh'')\<rparr>,
      [Sent (get_feed\<lparr>authorization := Some ''Bearer stale''\<rparr>), RefreshPosted ''r1'',
       Sent (get_feed\<lparr>retry := True, authorization := Some ''Bearer fresh''\<rparr>)])"
  by (simp add: api.simps always_401_def stale_browser_def get_feed_def attach_token_def)

section \<open>The auth store: login\<close>

lemma login_resolved_user:
  "login email password (Resolved tok) (Resolved u) (Resolved p) (s, w) =
     (True,
      s\<lparr>isLoading := False, error := None, user := Some u, profile := Some p, isAuthenticated := True\<rparr>,
      w\<lparr>localStorage := (localStorage w)(''access_token'' \<mapsto> access tok,
          ''refresh_token'' \<mapsto> refresh_token tok)\<rparr>)"
  by (simp add: login_def login_pending_def fetchUser_def Let_def)

lemma login_rejected:
  "login email password (Rejected e) userRes profileRes (s, w) =
     (False, s\<lparr>isLoading := False, error := Some (js_or e ''Login failed'')\<rparr>, w)"
  by (simp add: login_def login_pending_def Let_def)

text \<open>
  C1, at the input where the code departs from it. \<open>authAPI.login\<close> resolves and one
  of the two requests of \<open>fetchUser\<close> is rejected. \<open>fetchUser\<close> catches the
  rejection itself, so \<open>login\<close> goes on: it resolves to true with
  \<open>isAuthenticated\<close> true, \<open>user\<close> null and no error recorded.
\<close>

theorem login_authenticates_without_user:
  "fst (login email password (Resolved tok) (Rejected e) profileRes (s, w)) = True
   \<and> isAuthenticated (fst (snd (login email password (Resolved tok) (Rejected e) profileRes (s, w)))) = True
   \<and> user (fst (snd (login email password (Resolved tok) (Rejected e) profileRes (s, w)))) = None
   \<and> error (fst (snd (login email password (Resolved tok) (Rejected e) profileRes (s, w)))) = None
   \<and> isLoading (fst (snd (login email password (Resolved tok) (Rejected e) profileRes (s, w)))) = False
   \<and> fst (login email password (Resolved tok) (Resolved u) (Rejected e) (s, w)) = True
   \<and> user (fst (snd (login email password (Resolved tok) (Resolved u) (Rejected e) (s, w)))) = None
   \<and> error (fst (snd (login email password (Resolved tok) (Resolved u) (Rejected e) (s, w)))) = None"
  by (simp add: login_def login_pending_def fetchUser_def Let_def)

section \<open>Both stores: the busy flag and the error field\<close>



end
